theory Spec2Isabelle
  imports Main
begin

section \<open>Values exchanged with the client\<close>

text \<open>
  The handlers of \<^verbatim>\<open>server.js\<close> answer with a status code and a JSON body. A handler
  whose database callback throws (\<^verbatim>\<open>fs.unlinkSync\<close> is called inside the callback of
  \<^verbatim>\<open>db.get\<close>, outside every \<^verbatim>\<open>try\<close>) sends no response at all: that outcome is
  \<open>Uncaught\<close>.
\<close>

datatype json = JNull | JNum int | JStr string | JArr "json list" | JObj "(string \<times> json) list"

datatype outcome = Responded nat json | Uncaught

text \<open>A database statement either runs or fails with the message of its \<^verbatim>\<open>err\<close>.\<close>

type_synonym fault = "string option"

definition error_json :: "string \<Rightarrow> json" where
  "error_json msg = JObj [(''error'', JStr msg)]"

definition json_field :: "string \<Rightarrow> json \<Rightarrow> json option" where
  "json_field k j = (case j of JObj kvs \<Rightarrow> map_of kvs k | _ \<Rightarrow> None)"

definition is_integer_json :: "json \<Rightarrow> bool" where
  "is_integer_json j = (case j of JNum _ \<Rightarrow> True | _ \<Rightarrow> False)"

section \<open>The process and its surroundings\<close>

text \<open>
  Two things the source takes from outside: \<^verbatim>\<open>__dirname\<close>, and the way SQLite compares
  the INTEGER column \<^verbatim>\<open>id\<close> with the text of \<^verbatim>\<open>req.params.id\<close> (the text is converted
  to an integer when it is one, and equals no integer otherwise). Both are parameters.
\<close>

record platform =
  dirname :: string
  integer_affinity :: "string \<Rightarrow> int option"

definition path_join :: "string \<Rightarrow> string \<Rightarrow> string" where
  "path_join a b = a @ ''/'' @ b"

definition basename :: "string \<Rightarrow> string" where
  "basename p = rev (takeWhile (\<lambda>c. c \<noteq> CHR ''/'') (rev p))"

definition UPLOAD_DIR :: "platform \<Rightarrow> string" where
  "UPLOAD_DIR P = path_join (dirname P) ''uploads''"

definition digit_char :: "nat \<Rightarrow> char" where
  "digit_char n = ''0123456789'' ! n"

fun string_of_nat :: "nat \<Rightarrow> string" where
  "string_of_nat n =
     (if n < 10 then [digit_char n] else string_of_nat (n div 10) @ [digit_char (n mod 10)])"

declare string_of_nat.simps [simp del]

text \<open>
  The class \<^verbatim>\<open>\s\<close> of the file name pattern, on ASCII file names: space, tab, line feed,
  vertical tab, form feed and carriage return.
\<close>

definition is_space :: "char \<Rightarrow> bool" where
  "is_space c = (c \<in> set [CHR '' '', CHR 0x09, CHR 0x0A, CHR 0x0B, CHR 0x0C, CHR 0x0D])"

section \<open>The materials table\<close>

record material =
  id_col :: int
  name :: string
  desc :: string
  category :: string
  pdf_path :: string
  image_path :: "string option"

text \<open>
  \<open>seq\<close> is the AUTOINCREMENT counter of the table: the largest row id ever handed out.
\<close>

record table =
  rows :: "material list"
  seq :: int

subsection \<open>SQL comparisons: \<open>None\<close> is NULL, and a WHERE clause keeps a row only on TRUE\<close>

definition sql_eq :: "'a option \<Rightarrow> 'a option \<Rightarrow> bool option" where
  "sql_eq a b = (case a of None \<Rightarrow> None
                 | Some x \<Rightarrow> (case b of None \<Rightarrow> None | Some y \<Rightarrow> Some (x = y)))"

definition sql_is_null :: "'a option \<Rightarrow> bool option" where
  "sql_is_null a = Some (a = None)"

definition sql_and :: "bool option \<Rightarrow> bool option \<Rightarrow> bool option" where
  "sql_and a b =
     (if a = Some False \<or> b = Some False then Some False
      else if a = Some True \<and> b = Some True then Some True else None)"

definition sql_or :: "bool option \<Rightarrow> bool option \<Rightarrow> bool option" where
  "sql_or a b =
     (if a = Some True \<or> b = Some True then Some True
      else if a = Some False \<and> b = Some False then Some False else None)"

definition sql_true :: "bool option \<Rightarrow> bool" where
  "sql_true a = (a = Some True)"

text \<open>
  \<^verbatim>\<open>WHERE name = ? AND desc = ? AND category = ? AND pdf_path = ?
        AND (image_path = ? OR image_path IS NULL)\<close>
\<close>

definition duplicate_where ::
  "string \<Rightarrow> string \<Rightarrow> string \<Rightarrow> string \<Rightarrow> string option \<Rightarrow> material \<Rightarrow> bool option" where
  "duplicate_where nm ds cat pp ip r =
     sql_and (sql_eq (Some (name r)) (Some nm))
    (sql_and (sql_eq (Some (desc r)) (Some ds))
    (sql_and (sql_eq (Some (category r)) (Some cat))
    (sql_and (sql_eq (Some (pdf_path r)) (Some pp))
             (sql_or (sql_eq (image_path r) ip) (sql_is_null (image_path r))))))"

definition checkDuplicateMaterial ::
  "fault \<Rightarrow> string \<Rightarrow> string \<Rightarrow> string \<Rightarrow> string \<Rightarrow> string option \<Rightarrow> table \<Rightarrow> string + bool" where
  "checkDuplicateMaterial flt nm ds cat pp ip t =
     (case flt of
        Some e \<Rightarrow> Inl e
      | None \<Rightarrow>
          (case find (\<lambda>r. sql_true (duplicate_where nm ds cat pp ip r)) (rows t) of
             Some row \<Rightarrow> Inr True
           | None \<Rightarrow> Inr False))"

text \<open>\<^verbatim>\<open>WHERE id = ?\<close> with the text of the path parameter.\<close>

definition id_where :: "platform \<Rightarrow> string \<Rightarrow> material \<Rightarrow> bool" where
  "id_where P materialId r = (integer_affinity P materialId = Some (id_col r))"

definition select_by_id :: "platform \<Rightarrow> fault \<Rightarrow> string \<Rightarrow> table \<Rightarrow> string + material option" where
  "select_by_id P flt materialId t =
     (case flt of Some e \<Rightarrow> Inl e | None \<Rightarrow> Inr (find (id_where P materialId) (rows t)))"

definition next_rowid :: "table \<Rightarrow> int" where
  "next_rowid t = max (seq t) (foldr max (map id_col (rows t)) 0) + 1"

definition insert_material ::
  "fault \<Rightarrow> string \<Rightarrow> string \<Rightarrow> string \<Rightarrow> string \<Rightarrow> string option \<Rightarrow> table \<Rightarrow> string + (int \<times> table)" where
  "insert_material flt nm ds cat pp ip t =
     (case flt of
        Some e \<Rightarrow> Inl e
      | None \<Rightarrow>
          (let lastID = next_rowid t
           in Inr (lastID,
                   t\<lparr>rows := rows t @ [\<lparr>id_col = lastID, name = nm, desc = ds, category = cat,
                                          pdf_path = pp, image_path = ip\<rparr>],
                     seq := lastID\<rparr>)))"

definition update_row ::
  "platform \<Rightarrow> fault \<Rightarrow> string \<Rightarrow> string \<Rightarrow> string \<Rightarrow> string \<Rightarrow> string option \<Rightarrow> string \<Rightarrow> table
     \<Rightarrow> string + table" where
  "update_row P flt nm ds cat pp ip materialId t =
     (case flt of
        Some e \<Rightarrow> Inl e
      | None \<Rightarrow>
          Inr (t\<lparr>rows := map (\<lambda>r. if id_where P materialId r
                                   then r\<lparr>name := nm, desc := ds, category := cat,
                                          pdf_path := pp, image_path := ip\<rparr>
                                   else r) (rows t)\<rparr>))"

definition delete_row :: "platform \<Rightarrow> fault \<Rightarrow> string \<Rightarrow> table \<Rightarrow> string + table" where
  "delete_row P flt materialId t =
     (case flt of
        Some e \<Rightarrow> Inl e
      | None \<Rightarrow> Inr (t\<lparr>rows := filter (\<lambda>r. \<not> id_where P materialId r) (rows t)\<rparr>))"

section \<open>The upload directory\<close>

text \<open>
  The state of the service: the table, the files on disk (path to content) and the paths
  whose removal fails (\<^verbatim>\<open>fs.unlinkSync\<close> throws on them).
\<close>

record world =
  db :: table
  disk :: "string \<rightharpoonup> string"
  locked :: "string set"

definition existsSync :: "string \<Rightarrow> world \<Rightarrow> bool" where
  "existsSync p w = (disk w p \<noteq> None)"

definition unlinkSync :: "string \<Rightarrow> world \<Rightarrow> world option" where
  "unlinkSync p w =
     (if disk w p = None \<or> p \<in> locked w then None else Some (w\<lparr>disk := (disk w)(p := None)\<rparr>))"

text \<open>\<^verbatim>\<open>if (fs.existsSync(p)) fs.unlinkSync(p);\<close> with \<open>None\<close> for the exception.\<close>

definition unlink_if_exists :: "string \<Rightarrow> world \<Rightarrow> world option" where
  "unlink_if_exists p w = (if existsSync p w then unlinkSync p w else Some w)"

text \<open>\<^verbatim>\<open>if (row.image_path && fs.existsSync(row.image_path)) fs.unlinkSync(row.image_path);\<close>\<close>

definition unlink_image_if_exists :: "string option \<Rightarrow> world \<Rightarrow> world option" where
  "unlink_image_if_exists ip w =
     (case ip of None \<Rightarrow> Some w | Some p \<Rightarrow> if p = [] then Some w else unlink_if_exists p w)"

section \<open>Requests and the multipart upload\<close>

text \<open>
  A request is a multipart form, as the routes expect. Each file part carries the value
  \<^verbatim>\<open>Date.now()\<close> returns when the storage engine names it.
\<close>

record upload_part =
  fieldname :: string
  originalname :: string
  mimetype :: string
  content :: string
  stamp :: nat

record request =
  protocol :: string
  host :: string
  params_id :: string
  body_name :: "string option"
  body_desc :: "string option"
  body_category :: "string option"
  parts :: "upload_part list"

record stored_file =
  part :: upload_part
  destination :: string
  filename :: string
  path :: string

definition fileFilter :: "upload_part \<Rightarrow> string option" where
  "fileFilter f =
     (if fieldname f = ''pdf'' \<and> mimetype f \<noteq> ''application/pdf''
      then Some ''Only PDF files are allowed''
      else if fieldname f = ''image''
              \<and> mimetype f \<notin> set [''image/jpeg'', ''image/png'', ''image/jpg'']
      then Some ''Only JPG, JPEG, and PNG images are allowed''
      else None)"

definition storage_destination :: "platform \<Rightarrow> upload_part \<Rightarrow> string" where
  "storage_destination P f =
     path_join (UPLOAD_DIR P) (if fieldname f = ''image'' then ''images'' else ''pdfs'')"

definition storage_filename :: "upload_part \<Rightarrow> string" where
  "storage_filename f =
     string_of_nat (stamp f) @ ''-''
       @ map (\<lambda>c. if is_space c then CHR ''_'' else c) (originalname f)"

definition store_part :: "platform \<Rightarrow> upload_part \<Rightarrow> stored_file" where
  "store_part P f =
     \<lparr>part = f, destination = storage_destination P f, filename = storage_filename f,
      path = path_join (storage_destination P f) (storage_filename f)\<rparr>"

text \<open>\<^verbatim>\<open>.fields([{ name: 'pdf', maxCount: 1 }, { name: 'image', maxCount: 1 }])\<close>\<close>

definition maxCount :: "string \<Rightarrow> nat" where
  "maxCount k = (if k = ''pdf'' then 1 else if k = ''image'' then 1 else 0)"

definition files_left :: "stored_file list \<Rightarrow> string \<Rightarrow> bool" where
  "files_left uploaded k = (length (filter (\<lambda>sf. fieldname (part sf) = k) uploaded) < maxCount k)"

text \<open>
  The middleware takes the file parts in the order of the form. A part beyond the
  \<^verbatim>\<open>maxCount\<close> of its field, or of a field that is not declared, stops it with
  \<^verbatim>\<open>Unexpected field\<close>; a part the filter rejects stops it with the filter's message.
  When the middleware stops with an error it removes the files it has stored so far.
  Directories are not part of the model: the disk is a map from paths to contents.
\<close>

definition remove_uploaded :: "stored_file list \<Rightarrow> world \<Rightarrow> world" where
  "remove_uploaded uploaded w =
     w\<lparr>disk := (\<lambda>p. if p \<in> set (map path uploaded) \<and> p \<notin> locked w then None else disk w p)\<rparr>"

fun upload_parts ::
  "platform \<Rightarrow> upload_part list \<Rightarrow> stored_file list \<Rightarrow> world \<Rightarrow> (string + stored_file list) \<times> world" where
  "upload_parts P [] uploaded w = (Inr uploaded, w)"
| "upload_parts P (f # fs) uploaded w =
     (if \<not> files_left uploaded (fieldname f) then (Inl ''Unexpected field'', remove_uploaded uploaded w)
      else (case fileFilter f of
              Some msg \<Rightarrow> (Inl msg, remove_uploaded uploaded w)
            | None \<Rightarrow>
                (let sf = store_part P f
                 in upload_parts P fs (uploaded @ [sf])
                      (w\<lparr>disk := (disk w)(path sf \<mapsto> content f)\<rparr>))))"

definition upload :: "platform \<Rightarrow> request \<Rightarrow> world \<Rightarrow> (string + stored_file list) \<times> world" where
  "upload P req w = upload_parts P (parts req) [] w"

text \<open>\<^verbatim>\<open>req.files[k] ? req.files[k][0] : null\<close>\<close>

definition first_file :: "stored_file list \<Rightarrow> string \<Rightarrow> stored_file option" where
  "first_file uploaded k =
     (case filter (\<lambda>sf. fieldname (part sf) = k) uploaded of [] \<Rightarrow> None | sf # _ \<Rightarrow> Some sf)"

text \<open>\<^verbatim>\<open>!name\<close>: the field is missing or the empty string.\<close>

definition falsy :: "string option \<Rightarrow> bool" where
  "falsy x = (case x of None \<Rightarrow> True | Some s \<Rightarrow> s = [])"

definition text_of :: "string option \<Rightarrow> string" where
  "text_of x = (case x of None \<Rightarrow> [] | Some s \<Rightarrow> s)"

definition link :: "request \<Rightarrow> string \<Rightarrow> string \<Rightarrow> string" where
  "link req subdir p =
     protocol req @ ''://'' @ host req @ ''/uploads/'' @ subdir @ ''/'' @ basename p"

definition image_link :: "request \<Rightarrow> string option \<Rightarrow> json" where
  "image_link req ip =
     (case ip of None \<Rightarrow> JNull
      | Some p \<Rightarrow> if p = [] then JNull else JStr (link req ''images'' p))"

definition json_of_path :: "string option \<Rightarrow> json" where
  "json_of_path ip = (case ip of None \<Rightarrow> JNull | Some p \<Rightarrow> JStr p)"

section \<open>The routes\<close>

subsection \<open>POST /api/materials\<close>

definition create_material ::
  "platform \<Rightarrow> fault \<Rightarrow> fault \<Rightarrow> request \<Rightarrow> world \<Rightarrow> outcome \<times> world" where
  "create_material P check_fault insert_fault req w =
     (case upload P req w of
        (Inl msg, w1) \<Rightarrow> (Responded 400 (error_json (''Upload Error: '' @ msg)), w1)
      | (Inr uploaded, w1) \<Rightarrow>
          if falsy (body_name req) \<or> falsy (body_desc req) \<or> falsy (body_category req)
          then (Responded 400 (error_json ''Name, description, and category are required.''), w1)
          else
            (case first_file uploaded ''pdf'' of
               None \<Rightarrow> (Responded 400 (error_json ''PDF file is required.''), w1)
             | Some pdfFile \<Rightarrow>
                 (let nm = text_of (body_name req);
                      ds = text_of (body_desc req);
                      cat = text_of (body_category req);
                      pp = path pdfFile;
                      ip = map_option path (first_file uploaded ''image'')
                  in case checkDuplicateMaterial check_fault nm ds cat pp ip (db w1) of
                       Inl e \<Rightarrow> (Responded 500 (error_json (''Database Error: '' @ e)), w1)
                     | Inr True \<Rightarrow> (Responded 409 (error_json ''Material already exists!''), w1)
                     | Inr False \<Rightarrow>
                         (case insert_material insert_fault nm ds cat pp ip (db w1) of
                            Inl e \<Rightarrow> (Responded 500 (error_json (''Database Error: '' @ e)), w1)
                          | Inr (lastID, t) \<Rightarrow>
                              (Responded 201
                                 (JObj [(''message'', JStr ''Material added successfully!''),
                                        (''material'',
                                         JObj [(''id'', JNum lastID),
                                               (''name'', JStr nm),
                                               (''desc'', JStr ds),
                                               (''category'', JStr cat),
                                               (''pdf_link'', JStr (link req ''pdfs'' pp)),
                                               (''image_link'', image_link req ip)])]),
                               w1\<lparr>db := t\<rparr>)))))"

subsection \<open>GET /api/materials\<close>

definition row_json :: "request \<Rightarrow> material \<Rightarrow> json" where
  "row_json req r =
     JObj [(''id'', JNum (id_col r)),
           (''name'', JStr (name r)),
           (''desc'', JStr (desc r)),
           (''category'', JStr (category r)),
           (''pdf_path'', JStr (pdf_path r)),
           (''image_path'', json_of_path (image_path r)),
           (''pdf_link'', JStr (link req ''pdfs'' (pdf_path r))),
           (''image_link'', image_link req (image_path r))]"

definition list_materials :: "fault \<Rightarrow> request \<Rightarrow> world \<Rightarrow> outcome \<times> world" where
  "list_materials all_fault req w =
     (case all_fault of
        Some e \<Rightarrow> (Responded 500 (error_json (''Database Fetch Error: '' @ e)), w)
      | None \<Rightarrow> (Responded 200 (JArr (map (row_json req) (rows (db w)))), w))"

subsection \<open>DELETE /api/materials/:id\<close>

definition delete_material ::
  "platform \<Rightarrow> fault \<Rightarrow> fault \<Rightarrow> request \<Rightarrow> world \<Rightarrow> outcome \<times> world" where
  "delete_material P get_fault run_fault req w =
     (case select_by_id P get_fault (params_id req) (db w) of
        Inl e \<Rightarrow> (Responded 404 (error_json ''Material not found.''), w)
      | Inr None \<Rightarrow> (Responded 404 (error_json ''Material not found.''), w)
      | Inr (Some row) \<Rightarrow>
          (case unlink_if_exists (pdf_path row) w of
             None \<Rightarrow> (Uncaught, w)
           | Some w1 \<Rightarrow>
               (case unlink_image_if_exists (image_path row) w1 of
                  None \<Rightarrow> (Uncaught, w1)
                | Some w2 \<Rightarrow>
                    (case delete_row P run_fault (params_id req) (db w2) of
                       Inl e \<Rightarrow> (Responded 500 (error_json (''Database Delete Error: '' @ e)), w2)
                     | Inr t \<Rightarrow>
                         (Responded 200 (JObj [(''message'', JStr ''Material deleted successfully.'')]),
                          w2\<lparr>db := t\<rparr>)))))"

subsection \<open>PUT /api/materials/:id\<close>

definition update_material ::
  "platform \<Rightarrow> fault \<Rightarrow> fault \<Rightarrow> request \<Rightarrow> world \<Rightarrow> outcome \<times> world" where
  "update_material P get_fault run_fault req w =
     (case upload P req w of
        (Inl msg, w1) \<Rightarrow> (Responded 400 (error_json (''Upload Error: '' @ msg)), w1)
      | (Inr uploaded, w1) \<Rightarrow>
          if falsy (body_name req) \<or> falsy (body_desc req) \<or> falsy (body_category req)
          then (Responded 400 (error_json ''Name, description, and category are required.''), w1)
          else
            (case select_by_id P get_fault (params_id req) (db w1) of
               Inl e \<Rightarrow> (Responded 404 (error_json ''Material not found.''), w1)
             | Inr None \<Rightarrow> (Responded 404 (error_json ''Material not found.''), w1)
             | Inr (Some existingMaterial) \<Rightarrow>
                 (let pdfFile = first_file uploaded ''pdf'';
                      imageFile = first_file uploaded ''image''
                  in case (case pdfFile of
                             None \<Rightarrow> Some w1
                           | Some pf \<Rightarrow> unlink_if_exists (pdf_path existingMaterial) w1) of
                       None \<Rightarrow> (Uncaught, w1)
                     | Some w2 \<Rightarrow>
                         (case (case imageFile of
                                  None \<Rightarrow> Some w2
                                | Some imf \<Rightarrow>
                                    unlink_image_if_exists (image_path existingMaterial) w2) of
                            None \<Rightarrow> (Uncaught, w2)
                          | Some w3 \<Rightarrow>
                              (let nm = text_of (body_name req);
                                   ds = text_of (body_desc req);
                                   cat = text_of (body_category req);
                                   newPdfPath = (case pdfFile of
                                                   None \<Rightarrow> pdf_path existingMaterial
                                                 | Some pf \<Rightarrow> path pf);
                                   newImagePath = (case imageFile of
                                                     None \<Rightarrow> image_path existingMaterial
                                                   | Some imf \<Rightarrow> Some (path imf))
                               in case update_row P run_fault nm ds cat newPdfPath newImagePath
                                         (params_id req) (db w3) of
                                    Inl e \<Rightarrow>
                                      (Responded 500 (error_json (''Database Error: '' @ e)), w3)
                                  | Inr t \<Rightarrow>
                                      (Responded 200
                                         (JObj [(''message'', JStr ''Material updated successfully!''),
                                                (''material'',
                                                 JObj [(''id'', JStr (params_id req)),
                                                       (''name'', JStr nm),
                                                       (''desc'', JStr ds),
                                                       (''category'', JStr cat),
                                                       (''pdf_link'', JStr (link req ''pdfs'' newPdfPath)),
                                                       (''image_link'', image_link req newImagePath)])]),
                                       w3\<lparr>db := t\<rparr>))))))"

section \<open>The duplicate check as the specification words it\<close>

text \<open>
  The specification's \<^verbatim>\<open>findExactMatch\<close>: every field equal, where a null supplied
  \<^verbatim>\<open>image_path\<close> matches a stored null or a stored value equal to the supplied one.
  It is compared with \<open>checkDuplicateMaterial\<close> below.
\<close>

definition spec_image_matches :: "string option \<Rightarrow> string option \<Rightarrow> bool" where
  "spec_image_matches supplied stored =
     (if supplied = None then stored = None \<or> stored = supplied else stored = supplied)"

definition spec_findExactMatch ::
  "string \<Rightarrow> string \<Rightarrow> string \<Rightarrow> string \<Rightarrow> string option \<Rightarrow> table \<Rightarrow> bool" where
  "spec_findExactMatch nm ds cat pp ip t =
     (\<exists>r \<in> set (rows t). name r = nm \<and> desc r = ds \<and> category r = cat \<and> pdf_path r = pp
                          \<and> spec_image_matches ip (image_path r))"

section \<open>Reading an outcome\<close>

definition status_of :: "outcome \<Rightarrow> nat option" where
  "status_of out = (case out of Responded n _ \<Rightarrow> Some n | Uncaught \<Rightarrow> None)"

definition body_of :: "outcome \<Rightarrow> json" where
  "body_of out = (case out of Responded _ b \<Rightarrow> b | Uncaught \<Rightarrow> JNull)"

definition material_field :: "string \<Rightarrow> outcome \<Rightarrow> json option" where
  "material_field k out =
     (case json_field ''material'' (body_of out) of Some m \<Rightarrow> json_field k m | None \<Rightarrow> None)"

definition listed_ids :: "json \<Rightarrow> json option list" where
  "listed_ids j = (case j of JArr items \<Rightarrow> map (json_field ''id'') items | _ \<Rightarrow> [])"

section \<open>A small installation used in the examples\<close>

definition demo_platform :: platform where
  "demo_platform =
     \<lparr>dirname = ''/srv'',
      integer_affinity = (\<lambda>s. if s = ''1'' then Some 1 else if s = ''2'' then Some 2 else None)\<rparr>"

definition algebra_row :: material where
  "algebra_row = \<lparr>id_col = 1, name = ''Algebra Notes'', desc = ''Ch1-3'', category = ''Math'',
                  pdf_path = ''/srv/uploads/pdfs/1000-a.pdf'', image_path = None\<rparr>"

definition algebra_table :: table where
  "algebra_table = \<lparr>rows = [algebra_row], seq = 1\<rparr>"

definition empty_world :: world where
  "empty_world = \<lparr>db = \<lparr>rows = [], seq = 0\<rparr>, disk = Map.empty, locked = {}\<rparr>"

definition algebra_world :: world where
  "algebra_world =
     \<lparr>db = algebra_table, disk = [''/srv/uploads/pdfs/1000-a.pdf'' \<mapsto> ''%PDF-1.4 algebra''],
      locked = {}\<rparr>"

definition geometry_row :: material where
  "geometry_row = \<lparr>id_col = 2, name = ''Geometry'', desc = ''Ch4'', category = ''Math'',
                   pdf_path = ''/srv/uploads/pdfs/1500-g.pdf'',
                   image_path = Some ''/srv/uploads/images/1500-g.png''\<rparr>"

definition library_world :: world where
  "library_world =
     \<lparr>db = \<lparr>rows = [algebra_row, geometry_row], seq = 2\<rparr>,
      disk = [''/srv/uploads/pdfs/1000-a.pdf'' \<mapsto> ''%PDF-1.4 algebra'',
              ''/srv/uploads/pdfs/1500-g.pdf'' \<mapsto> ''%PDF-1.4 geometry'',
              ''/srv/uploads/images/1500-g.png'' \<mapsto> ''PNG cover''],
      locked = {}\<rparr>"

definition pdf_part :: "nat \<Rightarrow> upload_part" where
  "pdf_part t = \<lparr>fieldname = ''pdf'', originalname = ''a.pdf'', mimetype = ''application/pdf'',
                 content = ''%PDF-1.4 algebra'', stamp = t\<rparr>"

definition image_part :: "nat \<Rightarrow> upload_part" where
  "image_part t = \<lparr>fieldname = ''image'', originalname = ''a.png'', mimetype = ''image/png'',
                   content = ''PNG cover'', stamp = t\<rparr>"

definition algebra_request :: "upload_part list \<Rightarrow> request" where
  "algebra_request ps =
     \<lparr>protocol = ''http'', host = ''localhost:5000'', params_id = ''1'',
      body_name = Some ''Algebra Notes'', body_desc = Some ''Ch1-3'', body_category = Some ''Math'',
      parts = ps\<rparr>"

section \<open>Facts about the table\<close>

lemma duplicate_where_iff:
  "sql_true (duplicate_where nm ds cat pp ip r) \<longleftrightarrow>
     name r = nm \<and> desc r = ds \<and> category r = cat \<and> pdf_path r = pp
       \<and> (image_path r = None \<or> image_path r = ip)"
  by (cases "image_path r"; cases ip)
     (auto simp: duplicate_where_def sql_true_def sql_and_def sql_or_def sql_eq_def sql_is_null_def)

lemma find_Some_holds: "find p xs = Some x \<Longrightarrow> x \<in> set xs \<and> p x"
  by (induction xs) (auto split: if_splits)

lemma find_None_none: "find p xs = None \<longleftrightarrow> \<not> (\<exists>x \<in> set xs. p x)"
  by (induction xs) auto

lemma checkDuplicateMaterial_found:
  "checkDuplicateMaterial None nm ds cat pp ip t =
     Inr (\<exists>r \<in> set (rows t). sql_true (duplicate_where nm ds cat pp ip r))"
proof (cases "find (\<lambda>r. sql_true (duplicate_where nm ds cat pp ip r)) (rows t)")
  case None
  then have "\<not> (\<exists>r \<in> set (rows t). sql_true (duplicate_where nm ds cat pp ip r))"
    by (simp add: find_None_none)
  with None show ?thesis
    by (simp add: checkDuplicateMaterial_def)
next
  case (Some row)
  from find_Some_holds [OF Some]
  have "\<exists>r \<in> set (rows t). sql_true (duplicate_where nm ds cat pp ip r)"
    by blast
  with Some show ?thesis
    by (simp add: checkDuplicateMaterial_def)
qed

section \<open>Facts about the upload\<close>

lemma remove_uploaded_frame [simp]:
  "db (remove_uploaded up w) = db w" "locked (remove_uploaded up w) = locked w"
  by (simp_all add: remove_uploaded_def)

lemma upload_parts_db: "db (snd (upload_parts P fs up w)) = db w"
  by (induction fs arbitrary: up w) (auto simp: Let_def split: option.splits)

lemma upload_parts_locked: "locked (snd (upload_parts P fs up w)) = locked w"
  by (induction fs arbitrary: up w) (auto simp: Let_def split: option.splits)

lemma upload_parts_Inr:
  "upload_parts P fs up w = (Inr res, w1) \<Longrightarrow> res = up @ map (store_part P) fs"
proof (induction fs arbitrary: up w)
  case Nil
  then show ?case by simp
next
  case (Cons f fs)
  from Cons.prems have "upload_parts P fs (up @ [store_part P f])
      (w\<lparr>disk := (disk w)(path (store_part P f) \<mapsto> content f)\<rparr>) = (Inr res, w1)"
    by (simp add: Let_def split: option.splits if_splits)
  from Cons.IH [OF this] show ?case by simp
qed

lemma upload_db: "upload P req w = (res, w1) \<Longrightarrow> db w1 = db w"
  using upload_parts_db [of P "parts req" "[]" w] by (simp add: upload_def)

lemma upload_locked: "upload P req w = (res, w1) \<Longrightarrow> locked w1 = locked w"
  using upload_parts_locked [of P "parts req" "[]" w] by (simp add: upload_def)

lemma upload_Inr: "upload P req w = (Inr uploaded, w1) \<Longrightarrow> uploaded = map (store_part P) (parts req)"
  using upload_parts_Inr [of P "parts req" "[]" w uploaded w1] by (simp add: upload_def)

lemma first_file_absent:
  "\<forall>p \<in> set ps. fieldname p \<noteq> k \<Longrightarrow> first_file (map (store_part P) ps) k = None"
  by (simp add: first_file_def store_part_def filter_empty_conv[THEN iffD2] split: list.splits)

section \<open>Facts about removing files\<close>

lemma unlink_if_exists_free:
  "p \<notin> locked w \<Longrightarrow> unlink_if_exists p w = Some (w\<lparr>disk := (disk w)(p := None)\<rparr>)"
proof (cases "disk w p")
  case None
  then have "(disk w)(p := None) = disk w"
    by (simp add: fun_upd_idem)
  with None show ?thesis
    by (simp add: unlink_if_exists_def existsSync_def)
next
  case (Some c)
  assume "p \<notin> locked w"
  with Some show ?thesis
    by (simp add: unlink_if_exists_def existsSync_def unlinkSync_def)
qed



lemma unlink_if_exists_frame:
  "unlink_if_exists p w = Some w' \<Longrightarrow> db w' = db w \<and> locked w' = locked w"
  by (auto simp: unlink_if_exists_def unlinkSync_def split: if_splits)

lemma unlink_image_if_exists_frame:
  "unlink_image_if_exists ip w = Some w' \<Longrightarrow> db w' = db w \<and> locked w' = locked w"
  by (auto simp: unlink_image_if_exists_def dest: unlink_if_exists_frame split: option.splits if_splits)

section \<open>Facts about Update\<close>


lemma find_map_same_test:
  "find p xs = Some x \<Longrightarrow> (\<And>y. p (f y) = p y) \<Longrightarrow> find p (map f xs) = Some (f x)"
  by (induction xs) (auto split: if_splits)

lemma basename_path_join:
  "CHR ''/'' \<notin> set b \<Longrightarrow> basename (path_join a b) = b"
proof -
  assume "CHR ''/'' \<notin> set b"
  then have "takeWhile (\<lambda>c. c \<noteq> CHR ''/'') (rev b @ CHR ''/'' # rev a) = rev b"
    using takeWhile_append2 [of "rev b" "\<lambda>c. c \<noteq> CHR ''/''" "CHR ''/'' # rev a"] by auto
  then show ?thesis
    by (simp add: basename_def path_join_def)
qed

lemma digit_char_not_slash: "k < 10 \<Longrightarrow> digit_char k \<noteq> CHR ''/''"
proof -
  assume "k < 10"
  then have "k \<in> {0, 1, 2, 3, 4, 5, 6, 7, 8, 9}" by auto
  then show ?thesis
    by (auto simp: digit_char_def)
qed

lemma string_of_nat_no_slash: "CHR ''/'' \<notin> set (string_of_nat n)"
proof (induction n rule: string_of_nat.induct)
  case (1 n)
  show ?case
  proof (cases "n < 10")
    case True
    then show ?thesis
      using digit_char_not_slash [of n] by (subst string_of_nat.simps) auto
  next
    case False
    have "n mod 10 < 10" by simp
    from digit_char_not_slash [OF this] 1 [OF False] False show ?thesis
      by (subst string_of_nat.simps) auto
  qed
qed

lemma storage_filename_no_slash:
  "CHR ''/'' \<notin> set (originalname f) \<Longrightarrow> CHR ''/'' \<notin> set (storage_filename f)"
  using string_of_nat_no_slash [of "stamp f"] by (auto simp: storage_filename_def)

lemma basename_stored:
  "CHR ''/'' \<notin> set (originalname f)
     \<Longrightarrow> basename (path (store_part P f)) = filename (store_part P f)"
  by (simp add: store_part_def basename_path_join storage_filename_no_slash)

lemma first_file_stored:
  "first_file (map (store_part P) ps) k = Some sf \<Longrightarrow> \<exists>f \<in> set ps. sf = store_part P f"
proof -
  assume "first_file (map (store_part P) ps) k = Some sf"
  then obtain rest where "filter (\<lambda>sf. fieldname (part sf) = k) (map (store_part P) ps) = sf # rest"
    by (auto simp: first_file_def split: list.splits)
  then have "sf \<in> set (filter (\<lambda>sf. fieldname (part sf) = k) (map (store_part P) ps))"
    by simp
  then show ?thesis by auto
qed

lemma same_id_same_row:
  assumes "distinct (map id_col xs)" and "r \<in> set xs" and "ex \<in> set xs"
    and "id_col r = id_col ex"
  shows "r = ex"
proof -
  from assms(1) have "inj_on id_col (set xs)"
    by (simp add: distinct_map)
  with assms(2-4) show ?thesis
    by (auto dest: inj_onD)
qed

lemma foldr_max_ge: "r \<in> set xs \<Longrightarrow> id_col r \<le> foldr max (map id_col xs) 0"
  by (induction xs) auto

lemma next_rowid_fresh: "r \<in> set (rows t) \<Longrightarrow> id_col r < next_rowid t"
  using foldr_max_ge [of r "rows t"] by (simp add: next_rowid_def)

section \<open>What a removal that does not throw leaves behind\<close>

lemma unlink_if_exists_effect:
  assumes "unlink_if_exists p w = Some w'"
  shows "db w' = db w \<and> locked w' = locked w \<and> disk w' = (disk w)(p := None)"
proof (cases "disk w p")
  case None
  then have "(disk w)(p := None) = disk w"
    by (simp add: fun_upd_idem)
  with None assms show ?thesis
    by (simp add: unlink_if_exists_def existsSync_def)
next
  case (Some c)
  with assms show ?thesis
    by (auto simp: unlink_if_exists_def existsSync_def unlinkSync_def split: if_splits)
qed

lemma unlink_image_if_exists_effect:
  assumes "unlink_image_if_exists ip w = Some w'"
  shows "db w' = db w \<and> locked w' = locked w
       \<and> disk w' = (\<lambda>q. if q \<noteq> [] \<and> ip = Some q then None else disk w q)"
proof (cases ip)
  case None
  with assms show ?thesis
    by (simp add: unlink_image_if_exists_def)
next
  case (Some p)
  show ?thesis
  proof (cases "p = []")
    case True
    with Some assms show ?thesis
      by (auto simp: unlink_image_if_exists_def)
  next
    case False
    with Some assms have "unlink_if_exists p w = Some w'"
      by (simp add: unlink_image_if_exists_def)
    from unlink_if_exists_effect [OF this] Some False show ?thesis
      by auto
  qed
qed

text \<open>
  An Update past its lookup, with the two removal steps named: the statement runs on the
  table as it was, in the state the removals left.
\<close>

lemma update_material_run:
  assumes up: "upload P req w = (Inr uploaded, w1)"
    and valid: "\<not> falsy (body_name req)" "\<not> falsy (body_desc req)" "\<not> falsy (body_category req)"
    and found: "find (id_where P (params_id req)) (rows (db w)) = Some ex"
    and pdf: "(case first_file uploaded ''pdf'' of
                 None \<Rightarrow> Some w1
               | Some pf \<Rightarrow> unlink_if_exists (pdf_path ex) w1) = Some w2"
    and img: "(case first_file uploaded ''image'' of
                 None \<Rightarrow> Some w2
               | Some imf \<Rightarrow> unlink_image_if_exists (image_path ex) w2) = Some w3"
  shows "update_material P None run_fault req w =
           (case update_row P run_fault (text_of (body_name req)) (text_of (body_desc req))
                   (text_of (body_category req))
                   (case first_file uploaded ''pdf'' of
                      None \<Rightarrow> pdf_path ex | Some pf \<Rightarrow> path pf)
                   (case first_file uploaded ''image'' of
                      None \<Rightarrow> image_path ex | Some imf \<Rightarrow> Some (path imf))
                   (params_id req) (db w) of
              Inl e \<Rightarrow> (Responded 500 (error_json (''Database Error: '' @ e)), w3)
            | Inr t \<Rightarrow>
                (Responded 200
                   (JObj [(''message'', JStr ''Material updated successfully!''),
                          (''material'',
                           JObj [(''id'', JStr (params_id req)),
                                 (''name'', JStr (text_of (body_name req))),
                                 (''desc'', JStr (text_of (body_desc req))),
                                 (''category'', JStr (text_of (body_category req))),
                                 (''pdf_link'',
                                  JStr (link req ''pdfs''
                                     (case first_file uploaded ''pdf'' of
                                        None \<Rightarrow> pdf_path ex | Some pf \<Rightarrow> path pf))),
                                 (''image_link'',
                                  image_link req
                                     (case first_file uploaded ''image'' of
                                        None \<Rightarrow> image_path ex
                                      | Some imf \<Rightarrow> Some (path imf)))])]),
                 w3\<lparr>db := t\<rparr>))"
proof -
  have db1: "db w1 = db w"
    using up by (rule upload_db)
  have sel: "select_by_id P None (params_id req) (db w1) = Inr (Some ex)"
    using found db1 by (simp add: select_by_id_def)
  have db2: "db w2 = db w"
    using pdf db1 unlink_if_exists_effect [of "pdf_path ex" w1 w2]
    by (cases "first_file uploaded ''pdf''") auto
  have db3: "db w3 = db w"
    using img db2 unlink_image_if_exists_effect [of "image_path ex" w2 w3]
    by (cases "first_file uploaded ''image''") auto
  show ?thesis
    unfolding update_material_def
    using up valid sel pdf img db3 by (simp add: Let_def)
qed

lemmas sql_defs = duplicate_where_def sql_true_def sql_and_def sql_or_def sql_eq_def sql_is_null_def

lemmas upload_defs = upload_def files_left_def maxCount_def fileFilter_def store_part_def
  storage_destination_def storage_filename_def UPLOAD_DIR_def path_join_def is_space_def
  digit_char_def string_of_nat.simps first_file_def remove_uploaded_def

lemmas example_defs = demo_platform_def algebra_row_def algebra_table_def empty_world_def
  geometry_row_def library_world_def
  algebra_world_def pdf_part_def image_part_def algebra_request_def

lemmas route_defs = falsy_def text_of_def link_def image_link_def basename_def error_json_def
  status_of_def checkDuplicateMaterial_def insert_material_def next_rowid_def select_by_id_def
  id_where_def update_row_def delete_row_def existsSync_def unlinkSync_def unlink_if_exists_def
  unlink_image_if_exists_def

section \<open>The duplicate check\<close>

text \<open>
  C2, as the code has it: when the lookup itself does not fail, the duplicate check
  answers true exactly when some row has the supplied name, description, category and
  document path and a stored image path that is null or equal to the supplied one. The
  lenient side is the stored value: a stored null matches every supplied image path, and a
  null supplied image path matches a stored null only.
\<close>

theorem checkDuplicateMaterial_exact:
  "checkDuplicateMaterial None nm ds cat pp ip t =
     Inr (\<exists>r \<in> set (rows t). name r = nm \<and> desc r = ds \<and> category r = cat \<and> pdf_path r = pp
                              \<and> (image_path r = None \<or> image_path r = ip))"
  unfolding checkDuplicateMaterial_found duplicate_where_iff ..

theorem checkDuplicateMaterial_exact_witness:
  "checkDuplicateMaterial None ''Algebra Notes'' ''Ch1-3'' ''Math'' ''/srv/uploads/pdfs/1000-a.pdf''
     (Some ''/srv/uploads/images/1000-a.png'') algebra_table = Inr True"
  using checkDuplicateMaterial_exact [of "''Algebra Notes''" "''Ch1-3''" "''Math''"
      "''/srv/uploads/pdfs/1000-a.pdf''" "Some ''/srv/uploads/images/1000-a.png''" algebra_table]
  by (simp add: algebra_table_def algebra_row_def)

text \<open>
  C2 as the specification words it fails: supplied with an image path, the check of the
  code matches a row stored without an image, and the specification's match does not.
\<close>

theorem findExactMatch_counterexample:
  "checkDuplicateMaterial None ''Algebra Notes'' ''Ch1-3'' ''Math'' ''/srv/uploads/pdfs/1000-a.pdf''
     (Some ''/srv/uploads/images/1000-a.png'') algebra_table = Inr True
   \<and> \<not> spec_findExactMatch ''Algebra Notes'' ''Ch1-3'' ''Math'' ''/srv/uploads/pdfs/1000-a.pdf''
     (Some ''/srv/uploads/images/1000-a.png'') algebra_table"
  by (simp add: checkDuplicateMaterial_def sql_defs spec_findExactMatch_def spec_image_matches_def
      algebra_table_def algebra_row_def)

text \<open>
  C9: a Create that supplies an image is reported as a duplicate of a stored row without an
  image whose name, description, category and document path equal the request's: the check
  answers true for the supplied image path, and the route answers 409 and inserts nothing.
\<close>

theorem create_with_image_conflicts_with_imageless_row:
  assumes "upload P req w = (Inr uploaded, w1)"
    and "\<not> falsy (body_name req)" and "\<not> falsy (body_desc req)" and "\<not> falsy (body_category req)"
    and "first_file uploaded ''pdf'' = Some pdfFile"
    and "first_file uploaded ''image'' = Some imageFile"
    and "r \<in> set (rows (db w))"
    and "name r = text_of (body_name req)" and "desc r = text_of (body_desc req)"
    and "category r = text_of (body_category req)"
    and "pdf_path r = path pdfFile" and "image_path r = None"
  shows "checkDuplicateMaterial None (name r) (desc r) (category r) (pdf_path r)
           (Some (path imageFile)) (db w) = Inr True
       \<and> create_material P None insert_fault req w
           = (Responded 409 (error_json ''Material already exists!''), w1)
       \<and> db w1 = db w"
proof -
  have same: "db w1 = db w"
    using assms(1) by (rule upload_db)
  have dup: "checkDuplicateMaterial None (name r) (desc r) (category r) (pdf_path r)
           (Some (path imageFile)) (db w) = Inr True"
    unfolding checkDuplicateMaterial_found duplicate_where_iff
    using assms(7,12) by auto
  then have "checkDuplicateMaterial None (text_of (body_name req)) (text_of (body_desc req))
      (text_of (body_category req)) (path pdfFile) (Some (path imageFile)) (db w1) = Inr True"
    using assms(8-11) same by simp
  then have "create_material P None insert_fault req w
           = (Responded 409 (error_json ''Material already exists!''), w1)"
    using assms(1-6) by (simp add: create_material_def)
  with dup same show ?thesis by simp
qed

theorem create_with_image_conflicts_with_imageless_row_witness:
  "create_material demo_platform None None (algebra_request [pdf_part 1000, image_part 1000])
     algebra_world
   = (Responded 409 (error_json ''Material already exists!''),
      snd (upload demo_platform (algebra_request [pdf_part 1000, image_part 1000]) algebra_world))"
proof -
  let ?req = "algebra_request [pdf_part 1000, image_part 1000]"
  let ?up = "map (store_part demo_platform) [pdf_part 1000, image_part 1000]"
  have up: "upload demo_platform ?req algebra_world
      = (Inr ?up, snd (upload demo_platform ?req algebra_world))"
    by (simp add: upload_defs example_defs Let_def)
  have "create_material demo_platform None None ?req algebra_world
      = (Responded 409 (error_json ''Material already exists!''),
         snd (upload demo_platform ?req algebra_world))
       \<and> db (snd (upload demo_platform ?req algebra_world)) = db algebra_world"
    using create_with_image_conflicts_with_imageless_row [of demo_platform ?req algebra_world ?up
        "snd (upload demo_platform ?req algebra_world)" "store_part demo_platform (pdf_part 1000)"
        "store_part demo_platform (image_part 1000)" algebra_row None, OF up]
    by (simp add: upload_defs example_defs route_defs)
  then show ?thesis by simp
qed

section \<open>Create\<close>

text \<open>
  C1: the same material created twice in a row. The storage engine names each stored
  document after the clock (\<^verbatim>\<open>Date.now()\<close>), so the second request, sent one second
  later with the same fields and the same document, is checked under a new document path:
  the duplicate check finds nothing, the route answers 201 and the table has two rows.
\<close>

theorem create_twice_inserts_twice:
  "status_of (fst (create_material demo_platform None None (algebra_request [pdf_part 1000])
                     empty_world)) = Some 201
   \<and> length (rows (db (snd (create_material demo_platform None None
                                (algebra_request [pdf_part 1000]) empty_world)))) = 1
   \<and> status_of (fst (create_material demo_platform None None (algebra_request [pdf_part 2000])
                       (snd (create_material demo_platform None None
                               (algebra_request [pdf_part 1000]) empty_world)))) = Some 201
   \<and> length (rows (db (snd (create_material demo_platform None None
                                (algebra_request [pdf_part 2000])
                                (snd (create_material demo_platform None None
                                        (algebra_request [pdf_part 1000]) empty_world)))))) = 2"
  by (simp add: create_material_def upload_defs example_defs route_defs sql_defs Let_def)




section \<open>Delete\<close>

text \<open>
  C8: a Delete whose id matches no row answers 404 (Material not found) and leaves the
  whole state as it was, table and files alike, whether or not the lookup itself failed.
\<close>

theorem delete_unknown_id_changes_nothing:
  assumes "\<forall>r \<in> set (rows (db w)). \<not> id_where P (params_id req) r"
  shows "delete_material P get_fault run_fault req w
           = (Responded 404 (error_json ''Material not found.''), w)"
proof -
  from assms have "find (id_where P (params_id req)) (rows (db w)) = None"
    by (simp add: find_None_none)
  then show ?thesis
    by (cases get_fault) (simp_all add: delete_material_def select_by_id_def)
qed

theorem delete_unknown_id_changes_nothing_witness:
  "delete_material demo_platform None None ((algebra_request [])\<lparr>params_id := ''2''\<rparr>) algebra_world
     = (Responded 404 (error_json ''Material not found.''), algebra_world)"
  using delete_unknown_id_changes_nothing [of algebra_world demo_platform
      "(algebra_request [])\<lparr>params_id := ''2''\<rparr>" None None]
  by (simp add: example_defs id_where_def)

text \<open>
  C5 as stated fails, on a Delete of an id that is in the table. When the lookup fails the
  route answers 404 and the document and the row stay. When the DELETE statement fails the
  route answers 500, the document is gone and the row stays. When the document cannot be
  unlinked the route sends no response, and the document and the row stay.
\<close>

theorem delete_existing_id_keeps_row_counterexample:
  "find (id_where demo_platform (params_id (algebra_request []))) (rows (db algebra_world))
     = Some algebra_row
   \<and> status_of (fst (delete_material demo_platform (Some ''SQLITE_BUSY'') None
                       (algebra_request []) algebra_world)) = Some 404
   \<and> disk (snd (delete_material demo_platform (Some ''SQLITE_BUSY'') None
                   (algebra_request []) algebra_world)) ''/srv/uploads/pdfs/1000-a.pdf''
       = Some ''%PDF-1.4 algebra''
   \<and> rows (db (snd (delete_material demo_platform (Some ''SQLITE_BUSY'') None
                       (algebra_request []) algebra_world))) = [algebra_row]
   \<and> status_of (fst (delete_material demo_platform None (Some ''SQLITE_BUSY'')
                       (algebra_request []) algebra_world)) = Some 500
   \<and> disk (snd (delete_material demo_platform None (Some ''SQLITE_BUSY'')
                   (algebra_request []) algebra_world)) ''/srv/uploads/pdfs/1000-a.pdf'' = None
   \<and> rows (db (snd (delete_material demo_platform None (Some ''SQLITE_BUSY'')
                       (algebra_request []) algebra_world))) = [algebra_row]
   \<and> fst (delete_material demo_platform None None (algebra_request [])
            (algebra_world\<lparr>locked := {''/srv/uploads/pdfs/1000-a.pdf''}\<rparr>)) = Uncaught
   \<and> disk (snd (delete_material demo_platform None None (algebra_request [])
                   (algebra_world\<lparr>locked := {''/srv/uploads/pdfs/1000-a.pdf''}\<rparr>)))
        ''/srv/uploads/pdfs/1000-a.pdf'' = Some ''%PDF-1.4 algebra''
   \<and> rows (db (snd (delete_material demo_platform None None (algebra_request [])
                       (algebra_world\<lparr>locked := {''/srv/uploads/pdfs/1000-a.pdf''}\<rparr>))))
       = [algebra_row]"
  by (simp add: delete_material_def example_defs route_defs)

text \<open>
  C5, as the code has it: a Delete whose lookup runs and finds a row of the id, and whose
  removals do not throw. Whatever the DELETE statement does, the document path and the
  image path of the row (when it has one) name no file afterwards, whether or not they
  named one before (an absent file is skipped and the operation goes on), and every other
  file is as it was. When the DELETE statement runs, the route answers 200, the table is
  the table before without the rows of the id, and the list that follows answers 200 and
  has no entry with the id.
\<close>

theorem delete_removes_files_and_row:
  assumes "find (id_where P (params_id req)) (rows (db w)) = Some row"
    and "unlink_if_exists (pdf_path row) w = Some w1"
    and "unlink_image_if_exists (image_path row) w1 = Some w2"
  shows "disk (snd (delete_material P None run_fault req w)) (pdf_path row) = None
       \<and> (\<forall>p. image_path row = Some p \<and> p \<noteq> []
              \<longrightarrow> disk (snd (delete_material P None run_fault req w)) p = None)
       \<and> (\<forall>q. q \<noteq> pdf_path row \<and> image_path row \<noteq> Some q
              \<longrightarrow> disk (snd (delete_material P None run_fault req w)) q = disk w q)
       \<and> fst (delete_material P None None req w)
           = Responded 200 (JObj [(''message'', JStr ''Material deleted successfully.'')])
       \<and> rows (db (snd (delete_material P None None req w)))
           = filter (\<lambda>r. \<not> id_where P (params_id req) r) (rows (db w))
       \<and> seq (db (snd (delete_material P None None req w))) = seq (db w)
       \<and> (\<forall>r \<in> set (rows (db (snd (delete_material P None None req w)))).
              id_col r \<noteq> id_col row)
       \<and> status_of (fst (list_materials None rq (snd (delete_material P None None req w))))
           = Some 200
       \<and> (\<forall>body. fst (list_materials None rq (snd (delete_material P None None req w)))
                    = Responded 200 body
              \<longrightarrow> Some (JNum (id_col row)) \<notin> set (listed_ids body))"
proof -
  have sel: "select_by_id P None (params_id req) (db w) = Inr (Some row)"
    using assms(1) by (simp add: select_by_id_def)
  from unlink_if_exists_effect [OF assms(2)]
  have db1: "db w1 = db w" and disk1: "disk w1 = (disk w)(pdf_path row := None)"
    by simp_all
  from unlink_image_if_exists_effect [OF assms(3)]
  have db2: "db w2 = db w1"
    and disk2: "disk w2 = (\<lambda>q. if q \<noteq> [] \<and> image_path row = Some q then None else disk w1 q)"
    by simp_all
  have any: "disk (snd (delete_material P None run_fault req w)) = disk w2"
    using sel assms(2,3) by (cases run_fault) (simp_all add: delete_material_def delete_row_def)
  have ok: "delete_material P None None req w
      = (Responded 200 (JObj [(''message'', JStr ''Material deleted successfully.'')]),
         w2\<lparr>db := (db w)\<lparr>rows := filter (\<lambda>r. \<not> id_where P (params_id req) r) (rows (db w))\<rparr>\<rparr>)"
    using sel assms(2,3) db1 db2 by (simp add: delete_material_def delete_row_def)
  have rows': "rows (db (snd (delete_material P None None req w)))
      = filter (\<lambda>r. \<not> id_where P (params_id req) r) (rows (db w))"
    using ok by simp
  have hit: "id_where P (params_id req) row"
    using find_Some_holds [OF assms(1)] by simp
  have left: "\<forall>r \<in> set (filter (\<lambda>r. \<not> id_where P (params_id req) r) (rows (db w))).
      id_col r \<noteq> id_col row"
    using hit by (auto simp: id_where_def)
  have listed: "Some (JNum (id_col row))
      \<notin> set (listed_ids (JArr (map (row_json rq)
              (filter (\<lambda>r. \<not> id_where P (params_id req) r) (rows (db w))))))"
    using left by (auto simp: listed_ids_def row_json_def json_field_def)
  have A: "disk (snd (delete_material P None run_fault req w)) (pdf_path row) = None"
    unfolding any disk2 disk1 by simp
  have B: "\<forall>p. image_path row = Some p \<and> p \<noteq> []
              \<longrightarrow> disk (snd (delete_material P None run_fault req w)) p = None"
    unfolding any disk2 disk1 by simp
  have B': "\<forall>q. q \<noteq> pdf_path row \<and> image_path row \<noteq> Some q
              \<longrightarrow> disk (snd (delete_material P None run_fault req w)) q = disk w q"
    unfolding any disk2 disk1 by simp
  have C: "fst (delete_material P None None req w)
           = Responded 200 (JObj [(''message'', JStr ''Material deleted successfully.'')])"
    using ok by simp
  have S: "seq (db (snd (delete_material P None None req w))) = seq (db w)"
    using ok by simp
  have D: "\<forall>r \<in> set (rows (db (snd (delete_material P None None req w)))).
              id_col r \<noteq> id_col row"
    unfolding rows' using left .
  have F: "status_of (fst (list_materials None rq (snd (delete_material P None None req w))))
           = Some 200"
    by (simp add: list_materials_def status_of_def)
  have G: "\<forall>body. fst (list_materials None rq (snd (delete_material P None None req w)))
                    = Responded 200 body
              \<longrightarrow> Some (JNum (id_col row)) \<notin> set (listed_ids body)"
    using listed by (simp add: list_materials_def rows')
  show ?thesis
    by (intro conjI A B B' C rows' S D F G)
qed

text \<open>
  The theorem at work on a table of two rows: deleting id 2 removes its document and its
  image, keeps the document of id 1 and leaves the row of id 1 alone. Deleting id 1 when
  its document is already missing answers 200 all the same.
\<close>

theorem delete_removes_files_and_row_witness:
  "fst (delete_material demo_platform None None ((algebra_request [])\<lparr>params_id := ''2''\<rparr>)
          library_world)
     = Responded 200 (JObj [(''message'', JStr ''Material deleted successfully.'')])
   \<and> rows (db (snd (delete_material demo_platform None None
                       ((algebra_request [])\<lparr>params_id := ''2''\<rparr>) library_world)))
       = [algebra_row]
   \<and> disk (snd (delete_material demo_platform None None
                   ((algebra_request [])\<lparr>params_id := ''2''\<rparr>) library_world))
        ''/srv/uploads/pdfs/1500-g.pdf'' = None
   \<and> disk (snd (delete_material demo_platform None None
                   ((algebra_request [])\<lparr>params_id := ''2''\<rparr>) library_world))
        ''/srv/uploads/images/1500-g.png'' = None
   \<and> disk (snd (delete_material demo_platform None None
                   ((algebra_request [])\<lparr>params_id := ''2''\<rparr>) library_world))
        ''/srv/uploads/pdfs/1000-a.pdf'' = Some ''%PDF-1.4 algebra''
   \<and> fst (delete_material demo_platform None None (algebra_request [])
            (algebra_world\<lparr>disk := Map.empty\<rparr>))
       = Responded 200 (JObj [(''message'', JStr ''Material deleted successfully.'')])"
proof -
  let ?req = "(algebra_request [])\<lparr>params_id := ''2''\<rparr>"
  let ?w1 = "library_world\<lparr>disk := (disk library_world)(pdf_path geometry_row := None)\<rparr>"
  let ?w2 = "?w1\<lparr>disk := (disk ?w1)(''/srv/uploads/images/1500-g.png'' := None)\<rparr>"
  let ?gone = "algebra_world\<lparr>disk := Map.empty\<rparr>"
  have found: "find (id_where demo_platform (params_id ?req)) (rows (db library_world))
      = Some geometry_row"
    by (simp add: example_defs id_where_def)
  have "pdf_path geometry_row \<notin> locked library_world"
    by (simp add: example_defs)
  then have pdf: "unlink_if_exists (pdf_path geometry_row) library_world = Some ?w1"
    by (rule unlink_if_exists_free)
  have "''/srv/uploads/images/1500-g.png'' \<notin> locked ?w1"
    by (simp add: example_defs)
  from unlink_if_exists_free [OF this]
  have img: "unlink_image_if_exists (image_path geometry_row) ?w1 = Some ?w2"
    by (simp add: unlink_image_if_exists_def geometry_row_def)
  note deleted = delete_removes_files_and_row [OF found pdf img, of None]
  have found1: "find (id_where demo_platform (params_id (algebra_request []))) (rows (db ?gone))
      = Some algebra_row"
    by (simp add: example_defs id_where_def)
  have pdf1: "unlink_if_exists (pdf_path algebra_row) ?gone = Some ?gone"
    by (simp add: unlink_if_exists_def existsSync_def)
  have img1: "unlink_image_if_exists (image_path algebra_row) ?gone = Some ?gone"
    by (simp add: unlink_image_if_exists_def algebra_row_def)
  note skipped = delete_removes_files_and_row [OF found1 pdf1 img1, of None]
  have A: "fst (delete_material demo_platform None None ?req library_world)
     = Responded 200 (JObj [(''message'', JStr ''Material deleted successfully.'')])"
    using deleted by blast
  have "rows (db (snd (delete_material demo_platform None None ?req library_world)))
      = filter (\<lambda>r. \<not> id_where demo_platform (params_id ?req) r) (rows (db library_world))"
    using deleted by blast
  then have B: "rows (db (snd (delete_material demo_platform None None ?req library_world)))
      = [algebra_row]"
    by (simp add: example_defs id_where_def)
  have "disk (snd (delete_material demo_platform None None ?req library_world))
      (pdf_path geometry_row) = None"
    using deleted by blast
  then have C: "disk (snd (delete_material demo_platform None None ?req library_world))
      ''/srv/uploads/pdfs/1500-g.pdf'' = None"
    by (simp add: geometry_row_def)
  have "\<forall>p. image_path geometry_row = Some p \<and> p \<noteq> []
      \<longrightarrow> disk (snd (delete_material demo_platform None None ?req library_world)) p = None"
    using deleted by blast
  then have D: "disk (snd (delete_material demo_platform None None ?req library_world))
      ''/srv/uploads/images/1500-g.png'' = None"
    by (simp add: geometry_row_def)
  have "\<forall>q. q \<noteq> pdf_path geometry_row \<and> image_path geometry_row \<noteq> Some q
      \<longrightarrow> disk (snd (delete_material demo_platform None None ?req library_world)) q
          = disk library_world q"
    using deleted by blast
  then have "disk (snd (delete_material demo_platform None None ?req library_world))
      ''/srv/uploads/pdfs/1000-a.pdf'' = disk library_world ''/srv/uploads/pdfs/1000-a.pdf''"
    by (simp add: geometry_row_def)
  then have E: "disk (snd (delete_material demo_platform None None ?req library_world))
      ''/srv/uploads/pdfs/1000-a.pdf'' = Some ''%PDF-1.4 algebra''"
    by (simp add: library_world_def)
  have F: "fst (delete_material demo_platform None None (algebra_request []) ?gone)
       = Responded 200 (JObj [(''message'', JStr ''Material deleted successfully.'')])"
    using skipped by blast
  show ?thesis
    by (intro conjI A B C D E F)
qed

section \<open>Update\<close>

text \<open>
  C6 as stated fails, on an Update of an id that is in the table with a new document.
  Without a name the route answers 400, and the previous document and the stored path
  stay. When the lookup fails the route answers 404 and the previous document stays. When
  the UPDATE statement fails the route answers 500: the previous document is gone and the
  stored path is still the previous one. When the previous document cannot be unlinked the
  route sends no response, and the previous document and the stored path stay.
\<close>

theorem update_new_document_keeps_old_counterexample:
  "find (id_where demo_platform (params_id (algebra_request [pdf_part 2000])))
       (rows (db algebra_world)) = Some algebra_row
   \<and> status_of (fst (update_material demo_platform None None
                       ((algebra_request [pdf_part 2000])\<lparr>body_name := None\<rparr>) algebra_world))
       = Some 400
   \<and> disk (snd (update_material demo_platform None None
                   ((algebra_request [pdf_part 2000])\<lparr>body_name := None\<rparr>) algebra_world))
        ''/srv/uploads/pdfs/1000-a.pdf'' = Some ''%PDF-1.4 algebra''
   \<and> map pdf_path (rows (db (snd (update_material demo_platform None None
                   ((algebra_request [pdf_part 2000])\<lparr>body_name := None\<rparr>) algebra_world))))
       = [''/srv/uploads/pdfs/1000-a.pdf'']
   \<and> status_of (fst (update_material demo_platform (Some ''SQLITE_BUSY'') None
                       (algebra_request [pdf_part 2000]) algebra_world)) = Some 404
   \<and> disk (snd (update_material demo_platform (Some ''SQLITE_BUSY'') None
                   (algebra_request [pdf_part 2000]) algebra_world))
        ''/srv/uploads/pdfs/1000-a.pdf'' = Some ''%PDF-1.4 algebra''
   \<and> status_of (fst (update_material demo_platform None (Some ''SQLITE_BUSY'')
                       (algebra_request [pdf_part 2000]) algebra_world)) = Some 500
   \<and> disk (snd (update_material demo_platform None (Some ''SQLITE_BUSY'')
                   (algebra_request [pdf_part 2000]) algebra_world))
        ''/srv/uploads/pdfs/1000-a.pdf'' = None
   \<and> map pdf_path (rows (db (snd (update_material demo_platform None (Some ''SQLITE_BUSY'')
                   (algebra_request [pdf_part 2000]) algebra_world))))
       = [''/srv/uploads/pdfs/1000-a.pdf'']
   \<and> fst (update_material demo_platform None None (algebra_request [pdf_part 2000])
            (algebra_world\<lparr>locked := {''/srv/uploads/pdfs/1000-a.pdf''}\<rparr>)) = Uncaught
   \<and> disk (snd (update_material demo_platform None None (algebra_request [pdf_part 2000])
                   (algebra_world\<lparr>locked := {''/srv/uploads/pdfs/1000-a.pdf''}\<rparr>)))
        ''/srv/uploads/pdfs/1000-a.pdf'' = Some ''%PDF-1.4 algebra''
   \<and> map pdf_path (rows (db (snd (update_material demo_platform None None
                   (algebra_request [pdf_part 2000])
                   (algebra_world\<lparr>locked := {''/srv/uploads/pdfs/1000-a.pdf''}\<rparr>)))))
       = [''/srv/uploads/pdfs/1000-a.pdf'']"
  by (simp add: update_material_def upload_defs example_defs route_defs Let_def)

text \<open>
  C6, as the code has it: an Update whose upload is accepted and carries a new document,
  whose name, description and category are present, whose lookup runs and finds a row of
  the id, and whose removals do not throw (the previous document, and the previous image
  only when a new image is sent). Whatever the UPDATE statement does, the previous document
  path names no file afterwards. When the UPDATE statement runs, the route answers 200, the
  table is the table before with the rows of the id rewritten, so that the row of the id
  holds the path of the new file, and the \<^verbatim>\<open>pdf_link\<close> of the answer ends in the base
  name of that path, which is the name the storage engine gave the file (when the client's
  file name has no slash).
\<close>

theorem update_with_new_document:
  assumes "upload P req w = (Inr uploaded, w1)"
    and "\<not> falsy (body_name req)" and "\<not> falsy (body_desc req)" and "\<not> falsy (body_category req)"
    and "find (id_where P (params_id req)) (rows (db w)) = Some ex"
    and "first_file uploaded ''pdf'' = Some pdfFile"
    and "unlink_if_exists (pdf_path ex) w1 = Some w2"
    and "(case first_file uploaded ''image'' of
            None \<Rightarrow> Some w2
          | Some imf \<Rightarrow> unlink_image_if_exists (image_path ex) w2) = Some w3"
  shows "disk (snd (update_material P None run_fault req w)) (pdf_path ex) = None
       \<and> status_of (fst (update_material P None None req w)) = Some 200
       \<and> rows (db (snd (update_material P None None req w)))
           = map (\<lambda>r. if id_where P (params_id req) r
                       then r\<lparr>name := text_of (body_name req), desc := text_of (body_desc req),
                              category := text_of (body_category req), pdf_path := path pdfFile,
                              image_path := (case first_file uploaded ''image'' of
                                               None \<Rightarrow> image_path ex
                                             | Some imf \<Rightarrow> Some (path imf))\<rparr>
                       else r) (rows (db w))
       \<and> (\<exists>r'. find (id_where P (params_id req))
                  (rows (db (snd (update_material P None None req w)))) = Some r'
                \<and> id_col r' = id_col ex \<and> pdf_path r' = path pdfFile)
       \<and> material_field ''pdf_link'' (fst (update_material P None None req w))
           = Some (JStr (protocol req @ ''://'' @ host req @ ''/uploads/pdfs/''
                          @ basename (path pdfFile)))
       \<and> (CHR ''/'' \<notin> set (originalname (part pdfFile))
            \<longrightarrow> basename (path pdfFile) = filename pdfFile)"
proof -
  let ?f = "\<lambda>r. if id_where P (params_id req) r
                 then r\<lparr>name := text_of (body_name req), desc := text_of (body_desc req),
                        category := text_of (body_category req), pdf_path := path pdfFile,
                        image_path := (case first_file uploaded ''image'' of
                                         None \<Rightarrow> image_path ex
                                       | Some imf \<Rightarrow> Some (path imf))\<rparr>
                 else r"
  have pdf: "(case first_file uploaded ''pdf'' of
                None \<Rightarrow> Some w1
              | Some pf \<Rightarrow> unlink_if_exists (pdf_path ex) w1) = Some w2"
    using assms(6,7) by simp
  note run = update_material_run [OF assms(1-5) pdf assms(8)]
  from unlink_if_exists_effect [OF assms(7)]
  have gone2: "disk w2 (pdf_path ex) = None"
    by simp
  have gone3: "disk w3 (pdf_path ex) = None"
  proof (cases "first_file uploaded ''image''")
    case None
    with assms(8) gone2 show ?thesis by simp
  next
    case (Some imf)
    with assms(8) have "unlink_image_if_exists (image_path ex) w2 = Some w3"
      by simp
    from unlink_image_if_exists_effect [OF this] gone2 show ?thesis
      by simp
  qed
  have A: "disk (snd (update_material P None run_fault req w)) (pdf_path ex) = None"
    unfolding run [of run_fault] using gone3
    by (cases run_fault) (simp_all add: update_row_def)
  have ok: "update_material P None None req w =
      (Responded 200
         (JObj [(''message'', JStr ''Material updated successfully!''),
                (''material'',
                 JObj [(''id'', JStr (params_id req)),
                       (''name'', JStr (text_of (body_name req))),
                       (''desc'', JStr (text_of (body_desc req))),
                       (''category'', JStr (text_of (body_category req))),
                       (''pdf_link'', JStr (link req ''pdfs'' (path pdfFile))),
                       (''image_link'',
                        image_link req
                           (case first_file uploaded ''image'' of
                              None \<Rightarrow> image_path ex
                            | Some imf \<Rightarrow> Some (path imf)))])]),
       w3\<lparr>db := (db w)\<lparr>rows := map ?f (rows (db w))\<rparr>\<rparr>)"
    unfolding run [of None] using assms(6) by (simp add: update_row_def)
  have B: "status_of (fst (update_material P None None req w)) = Some 200"
    using ok by (simp add: status_of_def)
  have R: "rows (db (snd (update_material P None None req w))) = map ?f (rows (db w))"
    using ok by simp
  have "find (id_where P (params_id req)) (map ?f (rows (db w))) = Some (?f ex)"
    using assms(5) by (rule find_map_same_test) (simp add: id_where_def)
  moreover have "id_where P (params_id req) ex"
    using find_Some_holds [OF assms(5)] by simp
  ultimately have C: "\<exists>r'. find (id_where P (params_id req))
                  (rows (db (snd (update_material P None None req w)))) = Some r'
                \<and> id_col r' = id_col ex \<and> pdf_path r' = path pdfFile"
    unfolding R by simp
  have D: "material_field ''pdf_link'' (fst (update_material P None None req w))
           = Some (JStr (protocol req @ ''://'' @ host req @ ''/uploads/pdfs/''
                          @ basename (path pdfFile)))"
    using ok by (simp add: material_field_def body_of_def json_field_def link_def)
  have E: "CHR ''/'' \<notin> set (originalname (part pdfFile))
            \<longrightarrow> basename (path pdfFile) = filename pdfFile"
  proof
    assume noslash: "CHR ''/'' \<notin> set (originalname (part pdfFile))"
    from upload_Inr [OF assms(1)] assms(6)
    obtain f where "pdfFile = store_part P f"
      using first_file_stored by blast
    with noslash show "basename (path pdfFile) = filename pdfFile"
      using basename_stored [of f P] by (simp add: store_part_def)
  qed
  show ?thesis
    by (intro conjI A B R C D E)
qed

text \<open>
  The theorem at work on a table of two rows, for id 2, whose image cannot be unlinked: no
  image is sent, so the image is not touched and the Update goes through. The previous
  document is removed, the document of id 1 is not, and the link names the new file.
\<close>

theorem update_with_new_document_witness:
  "disk (snd (update_material demo_platform None None
                ((algebra_request [pdf_part 2000])\<lparr>params_id := ''2''\<rparr>)
                (library_world\<lparr>locked := {''/srv/uploads/images/1500-g.png''}\<rparr>)))
     ''/srv/uploads/pdfs/1500-g.pdf'' = None
   \<and> status_of (fst (update_material demo_platform None None
                       ((algebra_request [pdf_part 2000])\<lparr>params_id := ''2''\<rparr>)
                       (library_world\<lparr>locked := {''/srv/uploads/images/1500-g.png''}\<rparr>)))
       = Some 200
   \<and> map pdf_path (rows (db (snd (update_material demo_platform None None
                       ((algebra_request [pdf_part 2000])\<lparr>params_id := ''2''\<rparr>)
                       (library_world\<lparr>locked := {''/srv/uploads/images/1500-g.png''}\<rparr>)))))
       = [''/srv/uploads/pdfs/1000-a.pdf'', ''/srv/uploads/pdfs/2000-a.pdf'']
   \<and> material_field ''pdf_link''
        (fst (update_material demo_platform None None
                ((algebra_request [pdf_part 2000])\<lparr>params_id := ''2''\<rparr>)
                (library_world\<lparr>locked := {''/srv/uploads/images/1500-g.png''}\<rparr>)))
       = Some (JStr ''http://localhost:5000/uploads/pdfs/2000-a.pdf'')"
proof -
  let ?req = "(algebra_request [pdf_part 2000])\<lparr>params_id := ''2''\<rparr>"
  let ?lw = "library_world\<lparr>locked := {''/srv/uploads/images/1500-g.png''}\<rparr>"
  let ?sf = "store_part demo_platform (pdf_part 2000)"
  let ?w1 = "snd (upload demo_platform ?req ?lw)"
  let ?w2 = "?w1\<lparr>disk := (disk ?w1)(pdf_path geometry_row := None)\<rparr>"
  have up: "upload demo_platform ?req ?lw = (Inr [?sf], ?w1)"
    by (simp add: upload_defs example_defs Let_def)
  have v1: "\<not> falsy (body_name ?req)" and v2: "\<not> falsy (body_desc ?req)"
    and v3: "\<not> falsy (body_category ?req)"
    by (simp_all add: algebra_request_def falsy_def)
  have found: "find (id_where demo_platform (params_id ?req)) (rows (db ?lw)) = Some geometry_row"
    by (simp add: example_defs id_where_def)
  have newdoc: "first_file [?sf] ''pdf'' = Some ?sf"
    by (simp add: first_file_def store_part_def pdf_part_def)
  have "locked ?w1 = locked ?lw"
    using up by (rule upload_locked)
  then have "pdf_path geometry_row \<notin> locked ?w1"
    by (simp add: example_defs)
  then have pdf: "unlink_if_exists (pdf_path geometry_row) ?w1 = Some ?w2"
    by (rule unlink_if_exists_free)
  have img: "(case first_file [?sf] ''image'' of
                None \<Rightarrow> Some ?w2
              | Some imf \<Rightarrow> unlink_image_if_exists (image_path geometry_row) ?w2) = Some ?w2"
    by (simp add: first_file_def store_part_def pdf_part_def)
  note replaced = update_with_new_document [OF up v1 v2 v3 found newdoc pdf img, of None]
  have "disk (snd (update_material demo_platform None None ?req ?lw)) (pdf_path geometry_row) = None"
    using replaced by blast
  then have A: "disk (snd (update_material demo_platform None None ?req ?lw))
      ''/srv/uploads/pdfs/1500-g.pdf'' = None"
    by (simp add: geometry_row_def)
  have B: "status_of (fst (update_material demo_platform None None ?req ?lw)) = Some 200"
    using replaced by blast
  have "rows (db (snd (update_material demo_platform None None ?req ?lw)))
      = map (\<lambda>r. if id_where demo_platform (params_id ?req) r
                  then r\<lparr>name := text_of (body_name ?req), desc := text_of (body_desc ?req),
                         category := text_of (body_category ?req), pdf_path := path ?sf,
                         image_path := (case first_file [?sf] ''image'' of
                                          None \<Rightarrow> image_path geometry_row
                                        | Some imf \<Rightarrow> Some (path imf))\<rparr>
                  else r) (rows (db ?lw))"
    using replaced by blast
  then have C: "map pdf_path (rows (db (snd (update_material demo_platform None None ?req ?lw))))
      = [''/srv/uploads/pdfs/1000-a.pdf'', ''/srv/uploads/pdfs/2000-a.pdf'']"
    by (simp add: upload_defs example_defs id_where_def)
  have "material_field ''pdf_link'' (fst (update_material demo_platform None None ?req ?lw))
      = Some (JStr (protocol ?req @ ''://'' @ host ?req @ ''/uploads/pdfs/'' @ basename (path ?sf)))"
    using replaced by blast
  moreover have "protocol ?req @ ''://'' @ host ?req @ ''/uploads/pdfs/'' @ basename (path ?sf)
      = ''http://localhost:5000/uploads/pdfs/2000-a.pdf''"
    by (simp add: upload_defs example_defs basename_def)
  ultimately have D: "material_field ''pdf_link''
      (fst (update_material demo_platform None None ?req ?lw))
      = Some (JStr ''http://localhost:5000/uploads/pdfs/2000-a.pdf'')"
    by simp
  show ?thesis
    by (intro conjI A B C D)
qed

section \<open>Errors of Update and Delete\<close>




section \<open>What an Update leaves alone, and what the answers carry\<close>

text \<open>
  C7: an Update that supplies no new image leaves the image path of every row as it was,
  whatever else happens in the call (rejected upload, missing field, unknown id, failing
  lookup or statement, removal that throws, or success); the ids of the table are distinct,
  as its primary key has it. The \<^verbatim>\<open>image_link\<close> a List derives from the image path is
  therefore the same before and after.
\<close>

theorem update_without_image_keeps_image_path:
  assumes "\<forall>p \<in> set (parts req). fieldname p \<noteq> ''image''"
    and "distinct (map id_col (rows (db w)))"
  shows "map (\<lambda>r. (id_col r, image_path r))
             (rows (db (snd (update_material P get_fault run_fault req w))))
           = map (\<lambda>r. (id_col r, image_path r)) (rows (db w))
       \<and> map (\<lambda>r. (id_col r, image_link rq (image_path r)))
             (rows (db (snd (update_material P get_fault run_fault req w))))
           = map (\<lambda>r. (id_col r, image_link rq (image_path r))) (rows (db w))"
proof -
  let ?u = "update_material P get_fault run_fault req w"
  let ?g = "\<lambda>r. (id_col r, image_path r)"
  obtain res w1 where up: "upload P req w = (res, w1)"
    by (cases "upload P req w")
  have db1: "db w1 = db w"
    using up by (rule upload_db)
  have main: "map ?g (rows (db (snd ?u))) = map ?g (rows (db w))"
  proof (cases res)
    case (Inl msg)
    with up db1 show ?thesis
      by (simp add: update_material_def)
  next
    case (Inr uploaded)
    have no_image: "first_file uploaded ''image'' = None"
      using upload_Inr [of P req w uploaded w1] up Inr assms(1) first_file_absent by simp
    show ?thesis
    proof (cases "falsy (body_name req) \<or> falsy (body_desc req) \<or> falsy (body_category req)")
      case True
      with up Inr db1 show ?thesis
        by (simp add: update_material_def)
    next
      case valid: False
      show ?thesis
      proof (cases "select_by_id P get_fault (params_id req) (db w1)")
        case (Inl e)
        with up Inr valid db1 show ?thesis
          by (simp add: update_material_def)
      next
        case sel: (Inr found)
        show ?thesis
        proof (cases found)
          case None
          with up Inr valid db1 sel show ?thesis
            by (simp add: update_material_def)
        next
          case (Some ex)
          have ex: "find (id_where P (params_id req)) (rows (db w)) = Some ex"
            using sel Some db1 by (cases get_fault) (simp_all add: select_by_id_def)
          let ?o2 = "case first_file uploaded ''pdf'' of
                       None \<Rightarrow> Some w1
                     | Some pf \<Rightarrow> unlink_if_exists (pdf_path ex) w1"
          show ?thesis
          proof (cases ?o2)
            case None
            with up Inr valid db1 sel Some show ?thesis
              by (simp add: update_material_def Let_def)
          next
            case o2: (Some w2)
            have db2: "db w2 = db w"
              using o2 db1 unlink_if_exists_frame [of "pdf_path ex" w1 w2]
              by (cases "first_file uploaded ''pdf''") auto
            show ?thesis
            proof (cases run_fault)
              case fault: (Some e)
              with up Inr valid sel Some o2 no_image db2 show ?thesis
                by (simp add: update_material_def Let_def update_row_def)
            next
              case None
              let ?f = "\<lambda>r. if id_where P (params_id req) r
                  then r\<lparr>name := text_of (body_name req), desc := text_of (body_desc req),
                         category := text_of (body_category req),
                         pdf_path := (case first_file uploaded ''pdf'' of
                                        None \<Rightarrow> pdf_path ex | Some pf \<Rightarrow> path pf),
                         image_path := image_path ex\<rparr>
                  else r"
              have rows': "rows (db (snd ?u)) = map ?f (rows (db w))"
                using up Inr valid sel Some o2 no_image db2 None
                by (simp add: update_material_def Let_def update_row_def)
              have "?g (?f r) = ?g r" if "r \<in> set (rows (db w))" for r
              proof (cases "id_where P (params_id req) r")
                case True
                from find_Some_holds [OF ex] have "ex \<in> set (rows (db w))"
                  and "id_where P (params_id req) ex" by simp_all
                with True have "id_col r = id_col ex"
                  by (simp add: id_where_def)
                from same_id_same_row [OF assms(2) that \<open>ex \<in> set (rows (db w))\<close> this]
                show ?thesis by simp
              next
                case False
                then show ?thesis by simp
              qed
              then have "map ?g (map ?f (rows (db w))) = map ?g (rows (db w))"
                by (simp add: comp_def)
              with rows' show ?thesis by simp
            qed
          qed
        qed
      qed
    qed
  qed
  have "map (\<lambda>p. (fst p, image_link rq (snd p))) (map ?g (rows (db (snd ?u))))
      = map (\<lambda>p. (fst p, image_link rq (snd p))) (map ?g (rows (db w)))"
    using main by simp
  then have links: "map (\<lambda>r. (id_col r, image_link rq (image_path r))) (rows (db (snd ?u)))
           = map (\<lambda>r. (id_col r, image_link rq (image_path r))) (rows (db w))"
    by (simp add: comp_def)
  show ?thesis
    by (intro conjI main links)
qed

theorem update_without_image_keeps_image_path_witness:
  "map (\<lambda>r. (id_col r, image_path r))
       (rows (db (snd (update_material demo_platform None None
                         ((algebra_request [pdf_part 2000])\<lparr>params_id := ''2''\<rparr>) library_world))))
     = [(1, None), (2, Some ''/srv/uploads/images/1500-g.png'')]"
proof -
  let ?req = "(algebra_request [pdf_part 2000])\<lparr>params_id := ''2''\<rparr>"
  have no_image: "\<forall>p \<in> set (parts ?req). fieldname p \<noteq> ''image''"
    by (simp add: algebra_request_def pdf_part_def)
  have ids: "distinct (map id_col (rows (db library_world)))"
    by (simp add: example_defs)
  note kept = update_without_image_keeps_image_path [OF no_image ids, of demo_platform None None]
  have "map (\<lambda>r. (id_col r, image_path r)) (rows (db library_world))
      = [(1, None), (2, Some ''/srv/uploads/images/1500-g.png'')]"
    by (simp add: example_defs)
  with kept show ?thesis by simp
qed

text \<open>
  C10: the answer of a successful Update (status 200) carries, under \<^verbatim>\<open>material\<close>, the
  path parameter as the JSON string it arrived as and the name, description and category of
  the request body; its \<^verbatim>\<open>id\<close> is not a number. The answer of a successful Create
  (status 201) carries the row id the table assigned: a JSON number, larger than every id
  in the table before the call, and the id of a row of the table after it.
\<close>

theorem update_echoes_request_create_returns_rowid:
  "(status_of (fst (update_material P get_fault run_fault req w)) = Some 200
      \<longrightarrow> material_field ''id'' (fst (update_material P get_fault run_fault req w))
            = Some (JStr (params_id req))
        \<and> \<not> is_integer_json (JStr (params_id req))
        \<and> material_field ''name'' (fst (update_material P get_fault run_fault req w))
            = Some (JStr (text_of (body_name req)))
        \<and> material_field ''desc'' (fst (update_material P get_fault run_fault req w))
            = Some (JStr (text_of (body_desc req)))
        \<and> material_field ''category'' (fst (update_material P get_fault run_fault req w))
            = Some (JStr (text_of (body_category req)))
        \<and> body_name req = Some (text_of (body_name req))
        \<and> body_desc req = Some (text_of (body_desc req))
        \<and> body_category req = Some (text_of (body_category req)))
   \<and> (status_of (fst (create_material P check_fault insert_fault req w)) = Some 201
      \<longrightarrow> material_field ''id'' (fst (create_material P check_fault insert_fault req w))
            = Some (JNum (next_rowid (db w)))
        \<and> is_integer_json (JNum (next_rowid (db w)))
        \<and> (\<forall>r \<in> set (rows (db w)). id_col r < next_rowid (db w))
        \<and> (\<exists>r \<in> set (rows (db (snd (create_material P check_fault insert_fault req w)))).
              id_col r = next_rowid (db w)))"
proof -
  let ?u = "update_material P get_fault run_fault req w"
  let ?c = "create_material P check_fault insert_fault req w"
  obtain res w1 where up: "upload P req w = (res, w1)"
    by (cases "upload P req w")
  have db1: "db w1 = db w"
    using up by (rule upload_db)
  have given: "\<not> falsy x \<Longrightarrow> x = Some (text_of x)" for x
    by (cases x) (simp_all add: falsy_def text_of_def)
  have U: "status_of (fst ?u) = Some 200
      \<longrightarrow> material_field ''id'' (fst ?u) = Some (JStr (params_id req))
        \<and> \<not> is_integer_json (JStr (params_id req))
        \<and> material_field ''name'' (fst ?u) = Some (JStr (text_of (body_name req)))
        \<and> material_field ''desc'' (fst ?u) = Some (JStr (text_of (body_desc req)))
        \<and> material_field ''category'' (fst ?u) = Some (JStr (text_of (body_category req)))
        \<and> body_name req = Some (text_of (body_name req))
        \<and> body_desc req = Some (text_of (body_desc req))
        \<and> body_category req = Some (text_of (body_category req))"
    using up given [of "body_name req"] given [of "body_desc req"] given [of "body_category req"]
    by (auto simp: update_material_def status_of_def material_field_def body_of_def
        json_field_def is_integer_json_def Let_def
        split: sum.splits option.splits if_splits)
  have C: "status_of (fst ?c) = Some 201
      \<longrightarrow> material_field ''id'' (fst ?c) = Some (JNum (next_rowid (db w)))
        \<and> is_integer_json (JNum (next_rowid (db w)))
        \<and> (\<forall>r \<in> set (rows (db w)). id_col r < next_rowid (db w))
        \<and> (\<exists>r \<in> set (rows (db (snd ?c))). id_col r = next_rowid (db w))"
    using up db1 next_rowid_fresh [of _ "db w"]
    by (auto simp: create_material_def status_of_def material_field_def body_of_def
        json_field_def is_integer_json_def Let_def insert_material_def
        split: sum.splits option.splits if_splits bool.splits)
  show ?thesis
    by (intro conjI U C)
qed

theorem update_echoes_request_create_returns_rowid_witness:
  "material_field ''id'' (fst (update_material demo_platform None None (algebra_request [])
                                 algebra_world)) = Some (JStr ''1'')
   \<and> material_field ''id'' (fst (create_material demo_platform None None
                                   (algebra_request [pdf_part 2000]) algebra_world))
       = Some (JNum 2)"
proof -
  have updated: "status_of (fst (update_material demo_platform None None (algebra_request [])
                                   algebra_world)) = Some 200"
    by (simp add: update_material_def upload_def example_defs route_defs first_file_def Let_def)
  have created: "status_of (fst (create_material demo_platform None None
                                   (algebra_request [pdf_part 2000]) algebra_world)) = Some 201"
    by (simp add: create_material_def upload_defs example_defs route_defs sql_defs Let_def)
  note answers = update_echoes_request_create_returns_rowid [where P = demo_platform
      and w = algebra_world and get_fault = None and run_fault = None and check_fault = None
      and insert_fault = None]
  have A: "material_field ''id'' (fst (update_material demo_platform None None (algebra_request [])
                                 algebra_world)) = Some (JStr (params_id (algebra_request [])))"
    using answers [of "algebra_request []"] updated by blast
  have B: "material_field ''id'' (fst (create_material demo_platform None None
                                   (algebra_request [pdf_part 2000]) algebra_world))
       = Some (JNum (next_rowid (db algebra_world)))"
    using answers [of "algebra_request [pdf_part 2000]"] created by blast
  have "params_id (algebra_request []) = ''1''" and "next_rowid (db algebra_world) = 2"
    by (simp_all add: example_defs next_rowid_def)
  with A B show ?thesis by simp
qed

end
